theory Spec2Isabelle
  imports Main "HOL-Library.Monad_Syntax" "HOL-Library.Word"
begin

section \<open>The output configuration (the persisted envelope)\<close>

text \<open>
  Go's \<^verbatim>\<open>int\<close> is a 64-bit machine integer.  A slice or pointer whose nil-ness the
  code or the serialiser observes is an \<open>option\<close> (\<open>None\<close> is nil).  The \<^verbatim>\<open>Workflows\<close>
  field is an \<^verbatim>\<open>interface{}\<close>: an opaque value of type \<open>'w\<close>, or nil.
\<close>

record AutoplanConfig =
  WhenModified :: "string list"
  Enabled :: bool

record AtlantisProject =
  Name :: string
  Branch :: string
  Dir :: string
  Workspace :: string
  ExecutionOrderGroup :: "64 word"
  DeleteSourceBranchOnMergeProject :: bool
  RepoLocking :: bool
  Autoplan :: AutoplanConfig
  TerraformVersion :: string
  PlanRequirements :: "string list option"
  ApplyRequirements :: "string list option"
  ImportRequirements :: "string list option"
  Workflow :: string

record 'w AtlantisConfig =
  Version :: "64 word"
  AutoMerge :: bool
  DeleteSourceBranchOnMergeGlobal :: bool
  ParallelPlan :: bool
  ParallelApply :: bool
  Projects :: "AtlantisProject list"
  Workflows :: "'w option"

section \<open>The resolved locals of one module\<close>

text \<open>
  \<^verbatim>\<open>ResolvedLocals\<close> as the struct declares it.  A \<^verbatim>\<open>string\<close> field is a plain string
  (Go has no nil string; the zero value is the empty string).  A \<^verbatim>\<open>*bool\<close> field is a
  \<open>bool option\<close>: \<open>None\<close> is the nil pointer.  The three requirement slices are
  \<open>string list option\<close>, because the merge tests them against nil: \<open>None\<close> is the nil
  slice and \<open>Some []\<close> the empty, non-nil slice \<^verbatim>\<open>[]string{}\<close>.
  \<^verbatim>\<open>ExtraAtlantisDependencies\<close> is only ever appended to and iterated, never tested
  against nil, so it is the list of its elements.
\<close>

record ResolvedLocals =
  BranchProject :: string
  DeleteSourceBranchOnMergeProject :: "bool option"
  AtlantisWorkflow :: string
  PlanRequirements :: "string list option"
  ApplyRequirements :: "string list option"
  ImportRequirements :: "string list option"
  ExtraAtlantisDependencies :: "string list"
  AutoPlan :: "bool option"
  RepoLocking :: "bool option"
  Skip :: "bool option"
  TerraformVersion :: string
  markedProject :: "bool option"

text \<open>The zero value \<^verbatim>\<open>ResolvedLocals{}\<close>.\<close>

definition ResolvedLocals_zero :: ResolvedLocals where
  "ResolvedLocals_zero =
     \<lparr>BranchProject = '''',
      DeleteSourceBranchOnMergeProject = None,
      AtlantisWorkflow = '''',
      PlanRequirements = None,
      ApplyRequirements = None,
      ImportRequirements = None,
      ExtraAtlantisDependencies = [],
      AutoPlan = None,
      RepoLocking = None,
      Skip = None,
      TerraformVersion = '''',
      markedProject = None\<rparr>"

text \<open>Go's \<^verbatim>\<open>len\<close> of a slice: a nil slice has length 0.\<close>

fun len :: "'a list option \<Rightarrow> nat" where
  "len None = 0"
| "len (Some xs) = length xs"

subsection \<open>mergeResolvedLocals\<close>

text \<open>
  The function receives \<^verbatim>\<open>parent\<close> by value, overwrites its fields one \<^verbatim>\<open>if\<close> after the
  other and returns it.  Each \<open>let\<close> below is one statement of the source, in order.
\<close>

definition mergeResolvedLocals :: "ResolvedLocals \<Rightarrow> ResolvedLocals \<Rightarrow> ResolvedLocals" where
  "mergeResolvedLocals parent0 child =
     (let parent = parent0;
          parent = (if BranchProject child \<noteq> ''''
                    then parent\<lparr>BranchProject := BranchProject child\<rparr> else parent);
          parent = (if DeleteSourceBranchOnMergeProject child \<noteq> None
                    then parent\<lparr>DeleteSourceBranchOnMergeProject :=
                                  DeleteSourceBranchOnMergeProject child\<rparr>
                    else parent);
          parent = (if AtlantisWorkflow child \<noteq> ''''
                    then parent\<lparr>AtlantisWorkflow := AtlantisWorkflow child\<rparr> else parent);
          parent = (if TerraformVersion child \<noteq> ''''
                    then parent\<lparr>TerraformVersion := TerraformVersion child\<rparr> else parent);
          parent = (if AutoPlan child \<noteq> None
                    then parent\<lparr>AutoPlan := AutoPlan child\<rparr> else parent);
          parent = (if RepoLocking child \<noteq> None
                    then parent\<lparr>RepoLocking := RepoLocking child\<rparr> else parent);
          parent = (if Skip child \<noteq> None
                    then parent\<lparr>Skip := Skip child\<rparr> else parent);
          parent = (if markedProject child \<noteq> None
                    then parent\<lparr>markedProject := markedProject child\<rparr> else parent);
          parent = (if PlanRequirements child \<noteq> None \<or> 0 < len (PlanRequirements child)
                    then parent\<lparr>PlanRequirements := PlanRequirements child\<rparr> else parent);
          parent = (if ApplyRequirements child \<noteq> None \<or> 0 < len (ApplyRequirements child)
                    then parent\<lparr>ApplyRequirements := ApplyRequirements child\<rparr> else parent);
          parent = (if ImportRequirements child \<noteq> None \<or> 0 < len (ImportRequirements child)
                    then parent\<lparr>ImportRequirements := ImportRequirements child\<rparr> else parent);
          parent = parent\<lparr>ExtraAtlantisDependencies :=
                     ExtraAtlantisDependencies parent @ ExtraAtlantisDependencies child\<rparr>
      in parent)"

section \<open>Evaluated values (go-cty)\<close>

text \<open>
  \<^verbatim>\<open>cty.Value\<close> belongs to an external library; it is modelled by the kinds of value the
  extractor can meet and by the documented contract of the four methods it calls, each of
  which panics on a value of the wrong kind (\<open>None\<close> below is the panic).  \<open>NilVal\<close> is
  \<^verbatim>\<open>cty.NilVal\<close>.  \<open>CtyList\<close> stands for the sequences (list, set, tuple) with their
  elements in iteration order, \<open>CtyObject\<close> for objects and maps with their attributes in
  iteration order (the names of an object's attributes are distinct; a lookup reads the
  first entry of a name).
\<close>

datatype cty =
    NilVal
  | CtyNull
  | CtyUnknown
  | CtyString string
  | CtyBool bool
  | CtyNumber int
  | CtyList "cty list"
  | CtyObject "(string \<times> cty) list"

fun AsString :: "cty \<Rightarrow> string option" where
  "AsString (CtyString s) = Some s"
| "AsString _ = None"

text \<open>The method \<^verbatim>\<open>True()\<close> (the name \<open>True\<close> is taken in HOL).\<close>

fun IsTrue :: "cty \<Rightarrow> bool option" where
  "IsTrue (CtyBool b) = Some b"
| "IsTrue _ = None"

text \<open>\<^verbatim>\<open>ElementIterator()\<close>, as the list of the values \<^verbatim>\<open>it.Element()\<close> yields.\<close>

fun ElementIterator :: "cty \<Rightarrow> cty list option" where
  "ElementIterator (CtyList vs) = Some vs"
| "ElementIterator (CtyObject kvs) = Some (map snd kvs)"
| "ElementIterator _ = None"

fun AsValueMap :: "cty \<Rightarrow> (string \<rightharpoonup> cty) option" where
  "AsValueMap (CtyObject kvs) = Some (map_of kvs)"
| "AsValueMap _ = None"

text \<open>
  \<^verbatim>\<open>filepath.ToSlash\<close>; the platform's \<^verbatim>\<open>filepath.Separator\<close> is a parameter.
\<close>

definition ToSlash :: "char \<Rightarrow> string \<Rightarrow> string" where
  "ToSlash Separator path =
     (if Separator = CHR ''/'' then path
      else map (\<lambda>c. if c = Separator then CHR ''/'' else c) path)"

subsection \<open>resolveLocals\<close>

text \<open>
  The four element loops of the source have one shape,
  \<^verbatim>\<open>for it.Next() { _, val := it.Element(); xs = append(xs, f(val.AsString())) }\<close>,
  with \<open>f\<close> the identity for the requirement lists and \<^verbatim>\<open>filepath.ToSlash\<close> for the
  extra dependencies.
\<close>

fun append_elements :: "(string \<Rightarrow> string) \<Rightarrow> string list \<Rightarrow> cty list \<Rightarrow> string list option" where
  "append_elements f xs [] = Some xs"
| "append_elements f xs (val # it) =
     do { s \<leftarrow> AsString val; append_elements f (xs @ [f s]) it }"

text \<open>
  The result is \<open>None\<close> when the function panics.  Each binding of \<open>resolved\<close> is one
  \<^verbatim>\<open>v, ok := rawLocals[key]; if ok { ... }\<close> of the source, in the source's order and with
  the source's keys.
\<close>

definition resolveLocals :: "char \<Rightarrow> cty \<Rightarrow> ResolvedLocals option" where
  "resolveLocals Separator localsAsCty =
     (let resolved = ResolvedLocals_zero in
      if localsAsCty = NilVal then Some resolved
      else do {
        rawLocals \<leftarrow> AsValueMap localsAsCty;
        resolved \<leftarrow>
          (case rawLocals ''atlantis_branch'' of
             None \<Rightarrow> Some resolved
           | Some branchProjectValue \<Rightarrow>
               do { s \<leftarrow> AsString branchProjectValue;
                    Some (resolved\<lparr>BranchProject := s\<rparr>) });
        resolved \<leftarrow>
          (case rawLocals ''atlantis_delete_source_branch_on_merge'' of
             None \<Rightarrow> Some resolved
           | Some deleteSourceBranchOnMergeProjectValue \<Rightarrow>
               do { hasValue \<leftarrow> IsTrue deleteSourceBranchOnMergeProjectValue;
                    Some (resolved\<lparr>DeleteSourceBranchOnMergeProject := Some hasValue\<rparr>) });
        resolved \<leftarrow>
          (case rawLocals ''atlantis_workflow'' of
             None \<Rightarrow> Some resolved
           | Some workflowValue \<Rightarrow>
               do { s \<leftarrow> AsString workflowValue;
                    Some (resolved\<lparr>AtlantisWorkflow := s\<rparr>) });
        resolved \<leftarrow>
          (case rawLocals ''atlantis_terraform_version'' of
             None \<Rightarrow> Some resolved
           | Some versionValue \<Rightarrow>
               do { s \<leftarrow> AsString versionValue;
                    Some (resolved\<lparr>TerraformVersion := s\<rparr>) });
        resolved \<leftarrow>
          (case rawLocals ''atlantis_autoplan'' of
             None \<Rightarrow> Some resolved
           | Some autoPlanValue \<Rightarrow>
               do { hasValue \<leftarrow> IsTrue autoPlanValue;
                    Some (resolved\<lparr>AutoPlan := Some hasValue\<rparr>) });
        resolved \<leftarrow>
          (case rawLocals ''atlantis_repo_locking'' of
             None \<Rightarrow> Some resolved
           | Some repoLockingValue \<Rightarrow>
               do { hasValue \<leftarrow> IsTrue repoLockingValue;
                    Some (resolved\<lparr>RepoLocking := Some hasValue\<rparr>) });
        resolved \<leftarrow>
          (case rawLocals ''atlantis_skip'' of
             None \<Rightarrow> Some resolved
           | Some skipValue \<Rightarrow>
               do { hasValue \<leftarrow> IsTrue skipValue;
                    Some (resolved\<lparr>Skip := Some hasValue\<rparr>) });
        resolved \<leftarrow>
          (case rawLocals ''atlantis_plan_requirements'' of
             None \<Rightarrow> Some resolved
           | Some planReqs \<Rightarrow>
               do { it \<leftarrow> ElementIterator planReqs;
                    xs \<leftarrow> append_elements (\<lambda>s. s) [] it;
                    Some (resolved\<lparr>PlanRequirements := Some xs\<rparr>) });
        resolved \<leftarrow>
          (case rawLocals ''atlantis_apply_requirements'' of
             None \<Rightarrow> Some resolved
           | Some applyReqs \<Rightarrow>
               do { it \<leftarrow> ElementIterator applyReqs;
                    xs \<leftarrow> append_elements (\<lambda>s. s) [] it;
                    Some (resolved\<lparr>ApplyRequirements := Some xs\<rparr>) });
        resolved \<leftarrow>
          (case rawLocals ''atlantis_immport_requirements'' of
             None \<Rightarrow> Some resolved
           | Some importReqs \<Rightarrow>
               do { it \<leftarrow> ElementIterator importReqs;
                    xs \<leftarrow> append_elements (\<lambda>s. s) [] it;
                    Some (resolved\<lparr>ImportRequirements := Some xs\<rparr>) });
        resolved \<leftarrow>
          (case rawLocals ''atlantis_project'' of
             None \<Rightarrow> Some resolved
           | Some markedProjectValue \<Rightarrow>
               do { hasValue \<leftarrow> IsTrue markedProjectValue;
                    Some (resolved\<lparr>markedProject := Some hasValue\<rparr>) });
        resolved \<leftarrow>
          (case rawLocals ''extra_atlantis_dependencies'' of
             None \<Rightarrow> Some resolved
           | Some extraDependenciesAsCty \<Rightarrow>
               do { it \<leftarrow> ElementIterator extraDependenciesAsCty;
                    xs \<leftarrow> append_elements (ToSlash Separator)
                            (ExtraAtlantisDependencies resolved) it;
                    Some (resolved\<lparr>ExtraAtlantisDependencies := xs\<rparr>) });
        Some resolved
      })"

text \<open>
  What one key of the locals contributes to its field, by kind of field: the outer \<open>option\<close>
  is the panic, the value is the field after the statement when the field was still at its
  zero value before.  An absent key leaves the zero value.
\<close>

definition local_string :: "cty option \<Rightarrow> string option" where
  "local_string v = (case v of None \<Rightarrow> Some '''' | Some x \<Rightarrow> AsString x)"

definition local_bool :: "cty option \<Rightarrow> bool option option" where
  "local_bool v =
     (case v of None \<Rightarrow> Some None | Some x \<Rightarrow> do { b \<leftarrow> IsTrue x; Some (Some b) })"

definition local_list :: "cty option \<Rightarrow> string list option option" where
  "local_list v =
     (case v of None \<Rightarrow> Some None
      | Some x \<Rightarrow>
          do { it \<leftarrow> ElementIterator x;
               xs \<leftarrow> append_elements (\<lambda>s. s) [] it;
               Some (Some xs) })"

definition local_paths :: "char \<Rightarrow> cty option \<Rightarrow> string list option" where
  "local_paths Separator v =
     (case v of None \<Rightarrow> Some []
      | Some x \<Rightarrow> do { it \<leftarrow> ElementIterator x; append_elements (ToSlash Separator) [] it })"

section \<open>Parsing a file and following its includes\<close>

text \<open>
  An \<^verbatim>\<open>error\<close> value: one a library call returned (\<open>Failure\<close>, with its message), the
  diagnostics of the HCL parser, or the recovered panic that \<^verbatim>\<open>parseHcl\<close> wraps with the
  file name.
\<close>

datatype severity = DiagError | DiagWarning

datatype error =
    Failure string
  | Diagnostics "severity list"
  | PanicWhileParsingConfig string

text \<open>\<^verbatim>\<open>hcl.Diagnostics\<close> is a slice of diagnostics; \<open>None\<close> is the nil slice.\<close>

fun HasErrors :: "severity list option \<Rightarrow> bool" where
  "HasErrors None = False"
| "HasErrors (Some ds) = (DiagError \<in> set ds)"

text \<open>The fields of terragrunt's \<^verbatim>\<open>config.IncludeConfig\<close> and \<^verbatim>\<open>config.TrackInclude\<close> that
  this code reads.\<close>

record IncludeConfig =
  IncludeName :: string
  Path :: string

record TrackInclude =
  CurrentList :: "IncludeConfig list"

text \<open>
  Everything outside this repository that \<^verbatim>\<open>parseLocals\<close> calls is a parameter: the
  platform's path separator, the file system (\<^verbatim>\<open>util.ReadFileAsString\<close>), the two entry
  points of the HCL parser and terragrunt's \<^verbatim>\<open>config.DecodeBaseBlocks\<close> (with the
  terragrunt options fixed).  A parsed file \<^verbatim>\<open>*hcl.File\<close> is a value of type \<open>'f\<close>, or nil.
  The parser and the decoder may panic (\<open>None\<close>).  On success the decoder returns the
  pointer to the evaluated locals (nil is \<open>None\<close>) and the pointer to the tracked includes.
\<close>

record 'f world =
  Separator :: char
  ReadFileAsString :: "string \<Rightarrow> error + string"
  ParseJSON :: "string \<Rightarrow> string \<Rightarrow> ('f option \<times> severity list option) option"
  ParseHCL :: "string \<Rightarrow> string \<Rightarrow> ('f option \<times> severity list option) option"
  DecodeBaseBlocks ::
    "'f option \<Rightarrow> string \<Rightarrow> IncludeConfig option \<Rightarrow>
       (error + cty option \<times> TrackInclude option) option"

text \<open>\<^verbatim>\<open>os.IsPathSeparator\<close> and \<^verbatim>\<open>filepath.Ext\<close>; the argument \<open>n\<close> of the loop is \<open>i + 1\<close>.\<close>

definition IsPathSeparator :: "char \<Rightarrow> char \<Rightarrow> bool" where
  "IsPathSeparator sep c = (c = sep \<or> c = CHR ''/'')"

fun Ext_loop :: "char \<Rightarrow> string \<Rightarrow> nat \<Rightarrow> string" where
  "Ext_loop sep path 0 = ''''"
| "Ext_loop sep path (Suc i) =
     (if IsPathSeparator sep (path ! i) then ''''
      else if path ! i = CHR ''.'' then drop i path
      else Ext_loop sep path i)"

definition Ext :: "char \<Rightarrow> string \<Rightarrow> string" where
  "Ext sep path = Ext_loop sep path (length path)"

subsection \<open>parseHcl\<close>

text \<open>
  The deferred \<^verbatim>\<open>recover\<close> turns a panic of the parser into the error
  \<^verbatim>\<open>PanicWhileParsingConfig\<close>; the named result \<^verbatim>\<open>file\<close> is still nil then.
\<close>

definition parseHcl :: "'f world \<Rightarrow> string \<Rightarrow> string \<Rightarrow> 'f option \<times> error option" where
  "parseHcl w hcl filename =
     (if Ext (Separator w) filename = ''.json'' then
        (case ParseJSON w hcl filename of
           None \<Rightarrow> (None, Some (PanicWhileParsingConfig filename))
         | Some (file, parseDiagnostics) \<Rightarrow>
             if parseDiagnostics \<noteq> None \<and> HasErrors parseDiagnostics
             then (None, Some (Diagnostics (the parseDiagnostics)))
             else (file, None))
      else
        (case ParseHCL w hcl filename of
           None \<Rightarrow> (None, Some (PanicWhileParsingConfig filename))
         | Some (file, parseDiagnostics) \<Rightarrow>
             if parseDiagnostics \<noteq> None \<and> HasErrors parseDiagnostics
             then (None, Some (Diagnostics (the parseDiagnostics)))
             else (file, None)))"

subsection \<open>parseLocals\<close>

text \<open>
  The result is \<open>None\<close> when the call panics, else the pair \<^verbatim>\<open>(ResolvedLocals, error)\<close> the
  function returns (\<open>None\<close> in the second component is the nil error).  The \<open>fold\<close> is the
  \<^verbatim>\<open>for ... range trackInclude.CurrentList\<close> loop: it calls \<^verbatim>\<open>parseLocals\<close> on the path of
  each include with that include as \<^verbatim>\<open>includeFromChild\<close>, drops the error of the call
  (\<^verbatim>\<open>parentLocals, _ := ...\<close>) and merges the record into \<^verbatim>\<open>mergedParentLocals\<close>.
\<close>

function parseLocals ::
  "'f world \<Rightarrow> string \<Rightarrow> IncludeConfig option \<Rightarrow> (ResolvedLocals \<times> error option) option" where
  "parseLocals w path includeFromChild =
     (case ReadFileAsString w path of
        Inl err \<Rightarrow> Some (ResolvedLocals_zero, Some err)
      | Inr configString \<Rightarrow>
          (case parseHcl w configString path of
             (file, Some err) \<Rightarrow> Some (ResolvedLocals_zero, Some err)
           | (file, None) \<Rightarrow>
               (case DecodeBaseBlocks w file path includeFromChild of
                  None \<Rightarrow> None
                | Some (Inl err) \<Rightarrow> Some (ResolvedLocals_zero, Some err)
                | Some (Inr (localsAsCty, trackInclude)) \<Rightarrow>
                    do {
                      mergedParentLocals \<leftarrow>
                        (case trackInclude of
                           None \<Rightarrow> Some ResolvedLocals_zero
                         | Some ti \<Rightarrow>
                             if includeFromChild = None
                             then fold (\<lambda>includeConfig merged.
                                     do {
                                       mergedParentLocals \<leftarrow> merged;
                                       parent \<leftarrow> parseLocals w (Path includeConfig)
                                                  (Some includeConfig);
                                       Some (mergeResolvedLocals mergedParentLocals (fst parent))
                                     })
                                   (CurrentList ti) (Some ResolvedLocals_zero)
                             else Some ResolvedLocals_zero);
                      locals \<leftarrow> localsAsCty;
                      childLocals \<leftarrow> resolveLocals (Separator w) locals;
                      Some (mergeResolvedLocals mergedParentLocals childLocals, None)
                    })))"
  by pat_completeness auto
termination
  by (relation "measure (\<lambda>(w, path, includeFromChild). if includeFromChild = None then 1 else 0)")
     auto

text \<open>
  The three calls \<^verbatim>\<open>parseLocals\<close> makes before it looks at the includes, with their early
  returns: the error of the first call that fails, else what \<^verbatim>\<open>DecodeBaseBlocks\<close> returns.
  The theorems below speak about a file through this function.
\<close>

definition decodeFile ::
  "'f world \<Rightarrow> string \<Rightarrow> IncludeConfig option \<Rightarrow>
     (error + cty option \<times> TrackInclude option) option" where
  "decodeFile w path includeFromChild =
     (case ReadFileAsString w path of
        Inl err \<Rightarrow> Some (Inl err)
      | Inr configString \<Rightarrow>
          (case parseHcl w configString path of
             (file, Some err) \<Rightarrow> Some (Inl err)
           | (file, None) \<Rightarrow> DecodeBaseBlocks w file path includeFromChild))"

section \<open>Reading the previous output\<close>

text \<open>The zero value \<^verbatim>\<open>AtlantisConfig{}\<close>.\<close>

definition AtlantisConfig_zero :: "'w AtlantisConfig" where
  "AtlantisConfig_zero =
     \<lparr>Version = 0, AutoMerge = False, DeleteSourceBranchOnMergeGlobal = False,
      ParallelPlan = False, ParallelApply = False, Projects = [], Workflows = None\<rparr>"

text \<open>
  \<^verbatim>\<open>readOldConfig\<close> reads the package variable \<^verbatim>\<open>outputPath\<close>, the file system
  (\<^verbatim>\<open>ioutil.ReadFile\<close>) and the YAML decoder (\<^verbatim>\<open>yaml.Unmarshal\<close>, which fills the
  configuration it is given or returns an error); all three are parameters.  It returns the
  pair \<^verbatim>\<open>(*AtlantisConfig, error)\<close> and the lines it logged at level info.
\<close>

definition readOldConfig ::
  "(string \<Rightarrow> error + string) \<Rightarrow>
   (string \<Rightarrow> 'w AtlantisConfig \<Rightarrow> error + 'w AtlantisConfig) \<Rightarrow>
   string \<Rightarrow> ('w AtlantisConfig option \<times> error option) \<times> string list" where
  "readOldConfig ReadFile Unmarshal outputPath =
     (case ReadFile outputPath of
        Inl err \<Rightarrow>
          ((None, None), [''Could not find an old config file. Starting from scratch''])
      | Inr bytes \<Rightarrow>
          (let config = AtlantisConfig_zero in
           case Unmarshal bytes config of
             Inl err \<Rightarrow> ((None, Some err), [])
           | Inr config \<Rightarrow> ((Some config, None), [])))"

section \<open>Example inputs\<close>

text \<open>
  A small world on a POSIX platform, built from two tables: the text of each file, and for
  each file the locals \<^verbatim>\<open>DecodeBaseBlocks\<close> evaluates and the paths of its \<^verbatim>\<open>include\<close>
  blocks.  The parsed file is the text itself; the text \<^verbatim>\<open>{\<close> does not parse.  The flag
  \<open>nested\<close> says what the decoder does with an included file that has include blocks of
  its own: it accepts them, or it returns an error.
\<close>

definition example_include :: "string \<Rightarrow> IncludeConfig" where
  "example_include p = \<lparr>IncludeName = '''', Path = p\<rparr>"

definition example_parser :: "string \<Rightarrow> string \<Rightarrow> (string option \<times> severity list option) option" where
  "example_parser hcl filename =
     (if hcl = ''{'' then Some (None, Some [DiagError]) else Some (Some hcl, None))"

definition example_decoder ::
  "bool \<Rightarrow> (string \<times> cty \<times> string list) list \<Rightarrow> string option \<Rightarrow> string \<Rightarrow>
     IncludeConfig option \<Rightarrow> (error + cty option \<times> TrackInclude option) option" where
  "example_decoder nested modules file path includeFromChild =
     (case map_of modules path of
        None \<Rightarrow> Some (Inl (Failure ''cannot decode''))
      | Some (locals, includes) \<Rightarrow>
          if includeFromChild = None \<or> includes = [] \<or> nested
          then Some (Inr (Some locals, Some \<lparr>CurrentList = map example_include includes\<rparr>))
          else Some (Inl (Failure ''too many levels of inheritance'')))"

definition example_world ::
  "bool \<Rightarrow> (string \<times> string) list \<Rightarrow> (string \<times> cty \<times> string list) list \<Rightarrow> string world" where
  "example_world nested files modules =
     \<lparr>Separator = CHR ''/'',
      ReadFileAsString =
        (\<lambda>path. case map_of files path of
                  None \<Rightarrow> Inl (Failure ''no such file'')
                | Some text \<Rightarrow> Inr text),
      ParseJSON = example_parser,
      ParseHCL = example_parser,
      DecodeBaseBlocks = example_decoder nested modules\<rparr>"

text \<open>Locals that only name a workflow, and locals with nothing this program reads.\<close>

definition prod_locals :: cty where
  "prod_locals = CtyObject [(''atlantis_workflow'', CtyString ''prod'')]"

definition plain_locals :: cty where
  "plain_locals = CtyObject [(''region'', CtyString ''eu-west-1'')]"

text \<open>A module that includes itself.\<close>

definition self_world :: "bool \<Rightarrow> string world" where
  "self_world nested =
     example_world nested [(''a/terragrunt.hcl'', ''include {}'')]
       [(''a/terragrunt.hcl'', prod_locals, [''a/terragrunt.hcl''])]"

text \<open>A chain: \<^verbatim>\<open>a\<close> includes \<^verbatim>\<open>b\<close>, \<^verbatim>\<open>b\<close> includes \<^verbatim>\<open>c\<close>, and only \<^verbatim>\<open>c\<close> names a workflow.\<close>

definition chain_world :: "bool \<Rightarrow> string world" where
  "chain_world nested =
     example_world nested
       [(''a/terragrunt.hcl'', ''include {}''), (''b/terragrunt.hcl'', ''include {}''),
        (''c/terragrunt.hcl'', ''locals {}'')]
       [(''a/terragrunt.hcl'', plain_locals, [''b/terragrunt.hcl'']),
        (''b/terragrunt.hcl'', plain_locals, [''c/terragrunt.hcl'']),
        (''c/terragrunt.hcl'', prod_locals, [])]"

text \<open>
  A module with two sibling includes that both name a workflow; the module itself gives an
  explicitly empty list of plan requirements.
\<close>

definition dev_locals :: cty where
  "dev_locals =
     CtyObject [(''atlantis_workflow'', CtyString ''dev''),
                (''atlantis_plan_requirements'', CtyList [CtyString ''approved''])]"

definition app_locals :: cty where
  "app_locals = CtyObject [(''atlantis_plan_requirements'', CtyList [])]"

definition sibling_world :: "string world" where
  "sibling_world =
     example_world False
       [(''app/terragrunt.hcl'', ''include {}''), (''dev.hcl'', ''locals {}''),
        (''prod.hcl'', ''locals {}'')]
       [(''app/terragrunt.hcl'', app_locals, [''dev.hcl'', ''prod.hcl'']),
        (''dev.hcl'', dev_locals, []),
        (''prod.hcl'', prod_locals, [])]"

text \<open>A module whose include does not parse.\<close>

definition broken_world :: "string world" where
  "broken_world =
     example_world False [(''a/terragrunt.hcl'', ''include {}''), (''b/terragrunt.hcl'', ''{'')]
       [(''a/terragrunt.hcl'', prod_locals, [''b/terragrunt.hcl'']),
        (''b/terragrunt.hcl'', plain_locals, [])]"

text \<open>A module without includes.\<close>

definition single_world :: "string world" where
  "single_world =
     example_world False [(''a/terragrunt.hcl'', ''locals {}'')]
       [(''a/terragrunt.hcl'', dev_locals, [])]"

text \<open>The records the example locals extract to.\<close>

definition prod_record :: ResolvedLocals where
  "prod_record = ResolvedLocals_zero\<lparr>AtlantisWorkflow := ''prod''\<rparr>"

definition dev_record :: ResolvedLocals where
  "dev_record =
     ResolvedLocals_zero\<lparr>AtlantisWorkflow := ''dev'', PlanRequirements := Some [''approved'']\<rparr>"

definition app_record :: ResolvedLocals where
  "app_record = ResolvedLocals_zero\<lparr>PlanRequirements := Some []\<rparr>"

text \<open>A parent with all three requirement lists set, and a child that empties all three.\<close>

definition strict_record :: ResolvedLocals where
  "strict_record =
     ResolvedLocals_zero\<lparr>AtlantisWorkflow := ''dev'',
       PlanRequirements := Some [''approved''],
       ApplyRequirements := Some [''approved'', ''mergeable''],
       ImportRequirements := Some [''approved'']\<rparr>"

definition relaxed_record :: ResolvedLocals where
  "relaxed_record =
     ResolvedLocals_zero\<lparr>PlanRequirements := Some [], ApplyRequirements := Some [],
       ImportRequirements := Some []\<rparr>"

text \<open>
  Locals with the key the extractor reads for the import requirements, locals with the
  key spelt \<^verbatim>\<open>atlantis_import_requirements\<close>, locals with an explicitly empty workflow,
  and locals that switch autoplan off.
\<close>

definition immport_locals :: cty where
  "immport_locals =
     CtyObject [(''atlantis_immport_requirements'', CtyList [CtyString ''approved''])]"

definition import_locals :: cty where
  "import_locals =
     CtyObject [(''atlantis_import_requirements'', CtyList [CtyString ''approved''])]"

definition empty_workflow_locals :: cty where
  "empty_workflow_locals = CtyObject [(''atlantis_workflow'', CtyString '''')]"

definition autoplan_off_locals :: cty where
  "autoplan_off_locals = CtyObject [(''atlantis_autoplan'', CtyBool False)]"

text \<open>
  A file system with one readable output file and one unreadable path, and a YAML decoder
  that accepts one text.
\<close>

definition example_ReadFile :: "string \<Rightarrow> error + string" where
  "example_ReadFile p =
     (if p = ''atlantis.yaml'' then Inr ''version: 3''
      else if p = ''corrupt.yaml'' then Inr ''version: [''
      else Inl (Failure ''open: no such file or directory''))"

definition example_Unmarshal :: "string \<Rightarrow> unit AtlantisConfig \<Rightarrow> error + unit AtlantisConfig" where
  "example_Unmarshal bytes config =
     (if bytes = ''version: 3'' then Inr (config\<lparr>Version := 3\<rparr>)
      else Inl (Failure ''yaml: did not find expected node content''))"

section \<open>Properties of the merge\<close>

text \<open>
  A conditional overwrite of one field is an unconditional update by a conditional
  value.  With these equations the chain of statements of \<open>mergeResolvedLocals\<close>
  collapses into one record, field by field, without a case split per statement.
\<close>

lemma if_update:
  fixes r :: ResolvedLocals
  shows
    "(if b then r\<lparr>BranchProject := s\<rparr> else r) =
       r\<lparr>BranchProject := (if b then s else BranchProject r)\<rparr>"
    "(if b then r\<lparr>AtlantisWorkflow := s\<rparr> else r) =
       r\<lparr>AtlantisWorkflow := (if b then s else AtlantisWorkflow r)\<rparr>"
    "(if b then r\<lparr>TerraformVersion := s\<rparr> else r) =
       r\<lparr>TerraformVersion := (if b then s else TerraformVersion r)\<rparr>"
    "(if b then r\<lparr>DeleteSourceBranchOnMergeProject := f\<rparr> else r) =
       r\<lparr>DeleteSourceBranchOnMergeProject :=
           (if b then f else DeleteSourceBranchOnMergeProject r)\<rparr>"
    "(if b then r\<lparr>AutoPlan := f\<rparr> else r) =
       r\<lparr>AutoPlan := (if b then f else AutoPlan r)\<rparr>"
    "(if b then r\<lparr>RepoLocking := f\<rparr> else r) =
       r\<lparr>RepoLocking := (if b then f else RepoLocking r)\<rparr>"
    "(if b then r\<lparr>Skip := f\<rparr> else r) = r\<lparr>Skip := (if b then f else Skip r)\<rparr>"
    "(if b then r\<lparr>markedProject := f\<rparr> else r) =
       r\<lparr>markedProject := (if b then f else markedProject r)\<rparr>"
    "(if b then r\<lparr>PlanRequirements := l\<rparr> else r) =
       r\<lparr>PlanRequirements := (if b then l else PlanRequirements r)\<rparr>"
    "(if b then r\<lparr>ApplyRequirements := l\<rparr> else r) =
       r\<lparr>ApplyRequirements := (if b then l else ApplyRequirements r)\<rparr>"
    "(if b then r\<lparr>ImportRequirements := l\<rparr> else r) =
       r\<lparr>ImportRequirements := (if b then l else ImportRequirements r)\<rparr>"
  by simp_all

text \<open>The second disjunct of the slice tests never decides: a slice with an element is not nil.\<close>

lemma len_pos_iff:
  "(xs \<noteq> None \<or> 0 < len xs) = (xs \<noteq> None)"
  "((\<exists>y. xs = Some y) \<or> 0 < len xs) = (\<exists>y. xs = Some y)"
  by (cases xs; simp)+

lemma merge_closed:
  "mergeResolvedLocals p c =
     \<lparr>BranchProject = (if BranchProject c \<noteq> '''' then BranchProject c else BranchProject p),
      DeleteSourceBranchOnMergeProject =
        (if DeleteSourceBranchOnMergeProject c \<noteq> None
         then DeleteSourceBranchOnMergeProject c else DeleteSourceBranchOnMergeProject p),
      AtlantisWorkflow =
        (if AtlantisWorkflow c \<noteq> '''' then AtlantisWorkflow c else AtlantisWorkflow p),
      PlanRequirements =
        (if PlanRequirements c \<noteq> None then PlanRequirements c else PlanRequirements p),
      ApplyRequirements =
        (if ApplyRequirements c \<noteq> None then ApplyRequirements c else ApplyRequirements p),
      ImportRequirements =
        (if ImportRequirements c \<noteq> None then ImportRequirements c else ImportRequirements p),
      ExtraAtlantisDependencies = ExtraAtlantisDependencies p @ ExtraAtlantisDependencies c,
      AutoPlan = (if AutoPlan c \<noteq> None then AutoPlan c else AutoPlan p),
      RepoLocking = (if RepoLocking c \<noteq> None then RepoLocking c else RepoLocking p),
      Skip = (if Skip c \<noteq> None then Skip c else Skip p),
      TerraformVersion =
        (if TerraformVersion c \<noteq> '''' then TerraformVersion c else TerraformVersion p),
      markedProject = (if markedProject c \<noteq> None then markedProject c else markedProject p)\<rparr>"
  unfolding mergeResolvedLocals_def
  by (cases p, cases c)
     (simp add: if_update len_pos_iff Let_def split del: if_split cong: if_cong)

lemma merge_zero_left: "mergeResolvedLocals ResolvedLocals_zero c = c"
  by (rule ResolvedLocals.equality; simp add: merge_closed ResolvedLocals_zero_def)

lemma merge_zero_right: "mergeResolvedLocals p ResolvedLocals_zero = p"
  by (rule ResolvedLocals.equality; simp add: merge_closed ResolvedLocals_zero_def)

text \<open>
  C1.  For every parent and child record and every field with replace semantics (the three
  strings, the five flags, the three requirement lists), the merged field is the child's
  when the child's field is set and the parent's otherwise.  A string is set when it is not
  empty, a flag when its pointer is not nil, a requirement list when its slice is not nil;
  so a child whose requirement list is the empty, non-nil slice replaces the parent's list
  by that empty list.
\<close>

theorem merge_replace_semantics:
  "BranchProject (mergeResolvedLocals p c) =
     (if BranchProject c \<noteq> '''' then BranchProject c else BranchProject p) \<and>
   AtlantisWorkflow (mergeResolvedLocals p c) =
     (if AtlantisWorkflow c \<noteq> '''' then AtlantisWorkflow c else AtlantisWorkflow p) \<and>
   TerraformVersion (mergeResolvedLocals p c) =
     (if TerraformVersion c \<noteq> '''' then TerraformVersion c else TerraformVersion p) \<and>
   DeleteSourceBranchOnMergeProject (mergeResolvedLocals p c) =
     (if DeleteSourceBranchOnMergeProject c \<noteq> None
      then DeleteSourceBranchOnMergeProject c else DeleteSourceBranchOnMergeProject p) \<and>
   AutoPlan (mergeResolvedLocals p c) =
     (if AutoPlan c \<noteq> None then AutoPlan c else AutoPlan p) \<and>
   RepoLocking (mergeResolvedLocals p c) =
     (if RepoLocking c \<noteq> None then RepoLocking c else RepoLocking p) \<and>
   Skip (mergeResolvedLocals p c) = (if Skip c \<noteq> None then Skip c else Skip p) \<and>
   markedProject (mergeResolvedLocals p c) =
     (if markedProject c \<noteq> None then markedProject c else markedProject p) \<and>
   PlanRequirements (mergeResolvedLocals p c) =
     (if PlanRequirements c \<noteq> None then PlanRequirements c else PlanRequirements p) \<and>
   ApplyRequirements (mergeResolvedLocals p c) =
     (if ApplyRequirements c \<noteq> None then ApplyRequirements c else ApplyRequirements p) \<and>
   ImportRequirements (mergeResolvedLocals p c) =
     (if ImportRequirements c \<noteq> None then ImportRequirements c else ImportRequirements p) \<and>
   (PlanRequirements c = Some [] \<longrightarrow> PlanRequirements (mergeResolvedLocals p c) = Some []) \<and>
   (ApplyRequirements c = Some [] \<longrightarrow> ApplyRequirements (mergeResolvedLocals p c) = Some []) \<and>
   (ImportRequirements c = Some [] \<longrightarrow> ImportRequirements (mergeResolvedLocals p c) = Some [])"
  by (intro conjI impI; simp add: merge_closed)

theorem merge_replace_semantics_witness:
  "PlanRequirements (mergeResolvedLocals strict_record relaxed_record) = Some [] \<and>
   ApplyRequirements (mergeResolvedLocals strict_record relaxed_record) = Some [] \<and>
   ImportRequirements (mergeResolvedLocals strict_record relaxed_record) = Some [] \<and>
   AtlantisWorkflow (mergeResolvedLocals strict_record relaxed_record) = ''dev'' \<and>
   AtlantisWorkflow (mergeResolvedLocals strict_record prod_record) = ''prod'' \<and>
   PlanRequirements (mergeResolvedLocals strict_record prod_record) = Some [''approved'']"
proof -
  have fields:
    "PlanRequirements relaxed_record = Some []" "ApplyRequirements relaxed_record = Some []"
    "ImportRequirements relaxed_record = Some []" "AtlantisWorkflow relaxed_record = ''''"
    "AtlantisWorkflow strict_record = ''dev''"
    "PlanRequirements strict_record = Some [''approved'']"
    "AtlantisWorkflow prod_record = ''prod''" "PlanRequirements prod_record = None"
    by (simp_all add: strict_record_def relaxed_record_def prod_record_def
          ResolvedLocals_zero_def)
  from merge_replace_semantics [where p = strict_record and c = relaxed_record]
  have "PlanRequirements (mergeResolvedLocals strict_record relaxed_record) = Some []"
    and "ApplyRequirements (mergeResolvedLocals strict_record relaxed_record) = Some []"
    and "ImportRequirements (mergeResolvedLocals strict_record relaxed_record) = Some []"
    and "AtlantisWorkflow (mergeResolvedLocals strict_record relaxed_record) = ''dev''"
    by (simp_all only: fields) simp_all
  moreover
  from merge_replace_semantics [where p = strict_record and c = prod_record]
  have "AtlantisWorkflow (mergeResolvedLocals strict_record prod_record) = ''prod''"
    and "PlanRequirements (mergeResolvedLocals strict_record prod_record) = Some [''approved'']"
    by (simp_all only: fields) simp_all
  ultimately show ?thesis by simp
qed

text \<open>
  C2.  The extra dependency paths of the merge are the parent's entries followed by the
  child's, in order and with duplicates kept; and the field touches no other: changing the
  two inputs in this field only changes the merge in this field only.
\<close>

theorem merge_extra_dependencies_append:
  "ExtraAtlantisDependencies (mergeResolvedLocals p c) =
     ExtraAtlantisDependencies p @ ExtraAtlantisDependencies c \<and>
   mergeResolvedLocals (p\<lparr>ExtraAtlantisDependencies := xs\<rparr>)
       (c\<lparr>ExtraAtlantisDependencies := ys\<rparr>) =
     (mergeResolvedLocals p c)\<lparr>ExtraAtlantisDependencies := xs @ ys\<rparr>"
  by (simp add: merge_closed)

theorem merge_extra_dependencies_append_witness:
  "ExtraAtlantisDependencies
     (mergeResolvedLocals
        (prod_record\<lparr>ExtraAtlantisDependencies := [''../shared'']\<rparr>)
        (dev_record\<lparr>ExtraAtlantisDependencies := [''../shared'', ''../other'']\<rparr>)) =
   [''../shared'', ''../shared'', ''../other'']"
  using merge_extra_dependencies_append
    [where p = "prod_record\<lparr>ExtraAtlantisDependencies := [''../shared'']\<rparr>"
       and c = "dev_record\<lparr>ExtraAtlantisDependencies := [''../shared'', ''../other'']\<rparr>",
     THEN conjunct1]
  by simp

section \<open>Properties of the extractor\<close>

text \<open>
  One statement of \<open>resolveLocals\<close> on a record whose field is still at its zero value is
  the contribution of the key, stored into the field.
\<close>

lemma step_string:
  fixes r :: ResolvedLocals
  shows
    "BranchProject r = [] \<Longrightarrow>
      (case v of None \<Rightarrow> Some r
       | Some x \<Rightarrow> AsString x \<bind> (\<lambda>s. Some (r\<lparr>BranchProject := s\<rparr>))) =
      local_string v \<bind> (\<lambda>s. Some (r\<lparr>BranchProject := s\<rparr>))"
  and
    "AtlantisWorkflow r = [] \<Longrightarrow>
      (case v of None \<Rightarrow> Some r
       | Some x \<Rightarrow> AsString x \<bind> (\<lambda>s. Some (r\<lparr>AtlantisWorkflow := s\<rparr>))) =
      local_string v \<bind> (\<lambda>s. Some (r\<lparr>AtlantisWorkflow := s\<rparr>))"
  and
    "TerraformVersion r = [] \<Longrightarrow>
      (case v of None \<Rightarrow> Some r
       | Some x \<Rightarrow> AsString x \<bind> (\<lambda>s. Some (r\<lparr>TerraformVersion := s\<rparr>))) =
      local_string v \<bind> (\<lambda>s. Some (r\<lparr>TerraformVersion := s\<rparr>))"
  by (cases v; cases r; simp add: local_string_def)+

lemma step_bool:
  fixes r :: ResolvedLocals
  shows
    "DeleteSourceBranchOnMergeProject r = None \<Longrightarrow>
      (case v of None \<Rightarrow> Some r
       | Some x \<Rightarrow> IsTrue x \<bind> (\<lambda>b. Some (r\<lparr>DeleteSourceBranchOnMergeProject := Some b\<rparr>))) =
      local_bool v \<bind> (\<lambda>b. Some (r\<lparr>DeleteSourceBranchOnMergeProject := b\<rparr>))"
  and
    "AutoPlan r = None \<Longrightarrow>
      (case v of None \<Rightarrow> Some r
       | Some x \<Rightarrow> IsTrue x \<bind> (\<lambda>b. Some (r\<lparr>AutoPlan := Some b\<rparr>))) =
      local_bool v \<bind> (\<lambda>b. Some (r\<lparr>AutoPlan := b\<rparr>))"
  and
    "RepoLocking r = None \<Longrightarrow>
      (case v of None \<Rightarrow> Some r
       | Some x \<Rightarrow> IsTrue x \<bind> (\<lambda>b. Some (r\<lparr>RepoLocking := Some b\<rparr>))) =
      local_bool v \<bind> (\<lambda>b. Some (r\<lparr>RepoLocking := b\<rparr>))"
  and
    "Skip r = None \<Longrightarrow>
      (case v of None \<Rightarrow> Some r
       | Some x \<Rightarrow> IsTrue x \<bind> (\<lambda>b. Some (r\<lparr>Skip := Some b\<rparr>))) =
      local_bool v \<bind> (\<lambda>b. Some (r\<lparr>Skip := b\<rparr>))"
  and
    "markedProject r = None \<Longrightarrow>
      (case v of None \<Rightarrow> Some r
       | Some x \<Rightarrow> IsTrue x \<bind> (\<lambda>b. Some (r\<lparr>markedProject := Some b\<rparr>))) =
      local_bool v \<bind> (\<lambda>b. Some (r\<lparr>markedProject := b\<rparr>))"
  by (cases v; cases r; simp add: local_bool_def)+

lemma step_list:
  fixes r :: ResolvedLocals
  shows
    "PlanRequirements r = None \<Longrightarrow>
      (case v of None \<Rightarrow> Some r
       | Some x \<Rightarrow>
           ElementIterator x \<bind>
           (\<lambda>it. append_elements (\<lambda>s. s) [] it \<bind> (\<lambda>xs. Some (r\<lparr>PlanRequirements := Some xs\<rparr>)))) =
      local_list v \<bind> (\<lambda>l. Some (r\<lparr>PlanRequirements := l\<rparr>))"
  and
    "ApplyRequirements r = None \<Longrightarrow>
      (case v of None \<Rightarrow> Some r
       | Some x \<Rightarrow>
           ElementIterator x \<bind>
           (\<lambda>it. append_elements (\<lambda>s. s) [] it \<bind> (\<lambda>xs. Some (r\<lparr>ApplyRequirements := Some xs\<rparr>)))) =
      local_list v \<bind> (\<lambda>l. Some (r\<lparr>ApplyRequirements := l\<rparr>))"
  and
    "ImportRequirements r = None \<Longrightarrow>
      (case v of None \<Rightarrow> Some r
       | Some x \<Rightarrow>
           ElementIterator x \<bind>
           (\<lambda>it. append_elements (\<lambda>s. s) [] it \<bind> (\<lambda>xs. Some (r\<lparr>ImportRequirements := Some xs\<rparr>)))) =
      local_list v \<bind> (\<lambda>l. Some (r\<lparr>ImportRequirements := l\<rparr>))"
  by (cases v; cases r; simp add: local_list_def)+

lemma step_paths:
  fixes r :: ResolvedLocals
  shows
    "ExtraAtlantisDependencies r = [] \<Longrightarrow>
      (case v of None \<Rightarrow> Some r
       | Some x \<Rightarrow>
           ElementIterator x \<bind>
           (\<lambda>it. append_elements (ToSlash sep) (ExtraAtlantisDependencies r) it \<bind>
                 (\<lambda>xs. Some (r\<lparr>ExtraAtlantisDependencies := xs\<rparr>)))) =
      local_paths sep v \<bind> (\<lambda>xs. Some (r\<lparr>ExtraAtlantisDependencies := xs\<rparr>))"
  by (cases v; cases r; simp add: local_paths_def)

text \<open>The extractor in closed form: every field is the contribution of its own key.\<close>

lemma resolveLocals_closed:
  "resolveLocals sep v =
     (if v = NilVal then Some ResolvedLocals_zero
      else do {
        rawLocals \<leftarrow> AsValueMap v;
        branch \<leftarrow> local_string (rawLocals ''atlantis_branch'');
        del \<leftarrow> local_bool (rawLocals ''atlantis_delete_source_branch_on_merge'');
        workflow \<leftarrow> local_string (rawLocals ''atlantis_workflow'');
        version \<leftarrow> local_string (rawLocals ''atlantis_terraform_version'');
        autoplan \<leftarrow> local_bool (rawLocals ''atlantis_autoplan'');
        locking \<leftarrow> local_bool (rawLocals ''atlantis_repo_locking'');
        skip \<leftarrow> local_bool (rawLocals ''atlantis_skip'');
        planReqs \<leftarrow> local_list (rawLocals ''atlantis_plan_requirements'');
        applyReqs \<leftarrow> local_list (rawLocals ''atlantis_apply_requirements'');
        importReqs \<leftarrow> local_list (rawLocals ''atlantis_immport_requirements'');
        marked \<leftarrow> local_bool (rawLocals ''atlantis_project'');
        extra \<leftarrow> local_paths sep (rawLocals ''extra_atlantis_dependencies'');
        Some \<lparr>BranchProject = branch,
              DeleteSourceBranchOnMergeProject = del,
              AtlantisWorkflow = workflow,
              PlanRequirements = planReqs,
              ApplyRequirements = applyReqs,
              ImportRequirements = importReqs,
              ExtraAtlantisDependencies = extra,
              AutoPlan = autoplan,
              RepoLocking = locking,
              Skip = skip,
              TerraformVersion = version,
              markedProject = marked\<rparr>
      })"
  by (simp add: resolveLocals_def Let_def ResolvedLocals_zero_def
        step_string step_bool step_list step_paths
      split del: if_split cong: if_cong)

lemma AsValueMap_NilVal: "AsValueMap v = Some m \<Longrightarrow> v \<noteq> NilVal"
  by (cases v) simp_all

lemma resolveLocals_fields:
  assumes "resolveLocals sep v = Some r" and "AsValueMap v = Some m"
  shows "local_string (m ''atlantis_branch'') = Some (BranchProject r)"
    and "local_bool (m ''atlantis_delete_source_branch_on_merge'') =
           Some (DeleteSourceBranchOnMergeProject r)"
    and "local_string (m ''atlantis_workflow'') = Some (AtlantisWorkflow r)"
    and "local_string (m ''atlantis_terraform_version'') = Some (TerraformVersion r)"
    and "local_bool (m ''atlantis_autoplan'') = Some (AutoPlan r)"
    and "local_bool (m ''atlantis_repo_locking'') = Some (RepoLocking r)"
    and "local_bool (m ''atlantis_skip'') = Some (Skip r)"
    and "local_list (m ''atlantis_plan_requirements'') = Some (PlanRequirements r)"
    and "local_list (m ''atlantis_apply_requirements'') = Some (ApplyRequirements r)"
    and "local_list (m ''atlantis_immport_requirements'') = Some (ImportRequirements r)"
    and "local_bool (m ''atlantis_project'') = Some (markedProject r)"
    and "local_paths sep (m ''extra_atlantis_dependencies'') = Some (ExtraAtlantisDependencies r)"
  using assms AsValueMap_NilVal [OF assms(2)]
  by (auto simp add: resolveLocals_closed bind_eq_Some_conv)

lemma local_bool_eq:
  "local_bool v = Some f \<Longrightarrow> f = (case v of None \<Rightarrow> None | Some x \<Rightarrow> IsTrue x)"
  by (cases v) (auto simp: local_bool_def bind_eq_Some_conv)

lemma local_list_None_iff: "local_list v = Some l \<Longrightarrow> (l = None) = (v = None)"
  by (cases v) (auto simp: local_list_def bind_eq_Some_conv)

lemma local_string_eq:
  "local_string v = Some s \<Longrightarrow>
     (case v of None \<Rightarrow> s = '''' | Some x \<Rightarrow> AsString x = Some s)"
  by (cases v) (auto simp: local_string_def)

text \<open>The example locals, extracted.\<close>

lemma resolveLocals_examples:
  "resolveLocals CHR ''/'' prod_locals = Some prod_record"
  "resolveLocals CHR ''/'' plain_locals = Some ResolvedLocals_zero"
  "resolveLocals CHR ''/'' dev_locals = Some dev_record"
  "resolveLocals CHR ''/'' app_locals = Some app_record"
  "resolveLocals CHR ''/'' empty_workflow_locals = Some ResolvedLocals_zero"
  "resolveLocals CHR ''/'' import_locals = Some ResolvedLocals_zero"
  "resolveLocals CHR ''/'' immport_locals =
     Some (ResolvedLocals_zero\<lparr>ImportRequirements := Some [''approved'']\<rparr>)"
  "resolveLocals CHR ''/'' autoplan_off_locals =
     Some (ResolvedLocals_zero\<lparr>AutoPlan := Some False\<rparr>)"
  by (simp_all add: resolveLocals_closed local_string_def local_bool_def local_list_def
        local_paths_def prod_locals_def plain_locals_def dev_locals_def app_locals_def
        empty_workflow_locals_def import_locals_def immport_locals_def autoplan_off_locals_def
        prod_record_def dev_record_def app_record_def ResolvedLocals_zero_def)

text \<open>
  C9.  When the module has no locals block, so that the evaluated locals are
  \<^verbatim>\<open>cty.NilVal\<close>, the extractor returns the all-unset record; it does not panic, and it has
  no error result at all.
\<close>

theorem resolveLocals_absent_block: "resolveLocals sep NilVal = Some ResolvedLocals_zero"
  by (simp add: resolveLocals_closed)

text \<open>
  C10.  Whenever the extractor returns a record, its import requirements are set exactly
  when the locals contain the key \<^verbatim>\<open>atlantis_immport_requirements\<close>, spelt with two m.
  Locals that have only the key \<^verbatim>\<open>atlantis_import_requirements\<close> leave the field unset.
\<close>

theorem import_requirements_key:
  assumes "resolveLocals sep v = Some r"
  shows "(ImportRequirements r \<noteq> None) =
           (\<exists>m. AsValueMap v = Some m \<and> m ''atlantis_immport_requirements'' \<noteq> None)"
proof (cases "AsValueMap v")
  case None
  with assms have "v = NilVal"
    by (simp add: resolveLocals_closed split: if_splits)
  with assms have "r = ResolvedLocals_zero"
    by (simp add: resolveLocals_closed)
  with None show ?thesis
    by (simp add: ResolvedLocals_zero_def)
next
  case (Some m)
  from resolveLocals_fields(10) [OF assms Some]
  have "(ImportRequirements r = None) = (m ''atlantis_immport_requirements'' = None)"
    by (rule local_list_None_iff)
  with Some show ?thesis by simp
qed

theorem import_requirements_key_witness:
  "(\<exists>r. resolveLocals CHR ''/'' immport_locals = Some r \<and>
        ImportRequirements r = Some [''approved'']) \<and>
   (\<exists>r. resolveLocals CHR ''/'' import_locals = Some r \<and> ImportRequirements r = None)"
proof -
  have "ImportRequirements (ResolvedLocals_zero\<lparr>ImportRequirements := Some [''approved'']\<rparr>)
          \<noteq> None"
    using import_requirements_key [OF resolveLocals_examples(7)]
    by (simp add: immport_locals_def)
  moreover have "ImportRequirements ResolvedLocals_zero = None"
    using import_requirements_key [OF resolveLocals_examples(6)]
    by (simp add: import_locals_def)
  ultimately show ?thesis
    by (simp add: resolveLocals_examples)
qed

text \<open>
  C5, as the claim states it, fails for the string fields: an explicitly empty workflow
  extracts to the same record as locals that never mention a workflow, and merged over a
  parent with workflow \<^verbatim>\<open>prod\<close> it leaves \<^verbatim>\<open>prod\<close> in place.
\<close>

theorem tri_state_strings_counterexample:
  "resolveLocals CHR ''/'' empty_workflow_locals = Some ResolvedLocals_zero \<and>
   resolveLocals CHR ''/'' plain_locals = Some ResolvedLocals_zero \<and>
   AtlantisWorkflow (mergeResolvedLocals prod_record ResolvedLocals_zero) = ''prod''"
  by (simp add: resolveLocals_examples merge_closed prod_record_def ResolvedLocals_zero_def)

text \<open>
  C5, amended.  The five flags are tri-state: an absent key leaves the pointer nil, a
  present key stores the value, so explicitly false is not unset; in the merge a set
  flag of the child, false included, replaces the parent's, and a nil flag keeps it.
  The three string fields are two-state: an absent key leaves the empty string, a present
  key stores its string, so explicitly empty is the unset state; in the merge an empty
  string of the child keeps the parent's.
\<close>

theorem tri_state_flags_two_state_strings:
  assumes "resolveLocals sep v = Some r" and "AsValueMap v = Some m"
  shows
    "DeleteSourceBranchOnMergeProject r =
       (case m ''atlantis_delete_source_branch_on_merge'' of
          None \<Rightarrow> None | Some x \<Rightarrow> IsTrue x) \<and>
     AutoPlan r = (case m ''atlantis_autoplan'' of None \<Rightarrow> None | Some x \<Rightarrow> IsTrue x) \<and>
     RepoLocking r =
       (case m ''atlantis_repo_locking'' of None \<Rightarrow> None | Some x \<Rightarrow> IsTrue x) \<and>
     Skip r = (case m ''atlantis_skip'' of None \<Rightarrow> None | Some x \<Rightarrow> IsTrue x) \<and>
     markedProject r =
       (case m ''atlantis_project'' of None \<Rightarrow> None | Some x \<Rightarrow> IsTrue x) \<and>
     (case m ''atlantis_branch'' of
        None \<Rightarrow> BranchProject r = ''''
      | Some x \<Rightarrow> AsString x = Some (BranchProject r)) \<and>
     (case m ''atlantis_workflow'' of
        None \<Rightarrow> AtlantisWorkflow r = ''''
      | Some x \<Rightarrow> AsString x = Some (AtlantisWorkflow r)) \<and>
     (case m ''atlantis_terraform_version'' of
        None \<Rightarrow> TerraformVersion r = ''''
      | Some x \<Rightarrow> AsString x = Some (TerraformVersion r)) \<and>
     DeleteSourceBranchOnMergeProject (mergeResolvedLocals p r) =
       (case DeleteSourceBranchOnMergeProject r of
          None \<Rightarrow> DeleteSourceBranchOnMergeProject p | Some b \<Rightarrow> Some b) \<and>
     AutoPlan (mergeResolvedLocals p r) =
       (case AutoPlan r of None \<Rightarrow> AutoPlan p | Some b \<Rightarrow> Some b) \<and>
     RepoLocking (mergeResolvedLocals p r) =
       (case RepoLocking r of None \<Rightarrow> RepoLocking p | Some b \<Rightarrow> Some b) \<and>
     Skip (mergeResolvedLocals p r) = (case Skip r of None \<Rightarrow> Skip p | Some b \<Rightarrow> Some b) \<and>
     markedProject (mergeResolvedLocals p r) =
       (case markedProject r of None \<Rightarrow> markedProject p | Some b \<Rightarrow> Some b) \<and>
     BranchProject (mergeResolvedLocals p r) =
       (if BranchProject r = '''' then BranchProject p else BranchProject r) \<and>
     AtlantisWorkflow (mergeResolvedLocals p r) =
       (if AtlantisWorkflow r = '''' then AtlantisWorkflow p else AtlantisWorkflow r) \<and>
     TerraformVersion (mergeResolvedLocals p r) =
       (if TerraformVersion r = '''' then TerraformVersion p else TerraformVersion r)"
proof -
  note f = resolveLocals_fields [OF assms]
  have flags:
    "DeleteSourceBranchOnMergeProject r =
       (case m ''atlantis_delete_source_branch_on_merge'' of
          None \<Rightarrow> None | Some x \<Rightarrow> IsTrue x)"
    "AutoPlan r = (case m ''atlantis_autoplan'' of None \<Rightarrow> None | Some x \<Rightarrow> IsTrue x)"
    "RepoLocking r =
       (case m ''atlantis_repo_locking'' of None \<Rightarrow> None | Some x \<Rightarrow> IsTrue x)"
    "Skip r = (case m ''atlantis_skip'' of None \<Rightarrow> None | Some x \<Rightarrow> IsTrue x)"
    "markedProject r =
       (case m ''atlantis_project'' of None \<Rightarrow> None | Some x \<Rightarrow> IsTrue x)"
    by (rule local_bool_eq, rule f)+
  have strings:
    "case m ''atlantis_branch'' of
        None \<Rightarrow> BranchProject r = ''''
      | Some x \<Rightarrow> AsString x = Some (BranchProject r)"
    "case m ''atlantis_workflow'' of
        None \<Rightarrow> AtlantisWorkflow r = ''''
      | Some x \<Rightarrow> AsString x = Some (AtlantisWorkflow r)"
    "case m ''atlantis_terraform_version'' of
        None \<Rightarrow> TerraformVersion r = ''''
      | Some x \<Rightarrow> AsString x = Some (TerraformVersion r)"
    by (rule local_string_eq, rule f)+
  have merges:
    "DeleteSourceBranchOnMergeProject (mergeResolvedLocals p r) =
       (case DeleteSourceBranchOnMergeProject r of
          None \<Rightarrow> DeleteSourceBranchOnMergeProject p | Some b \<Rightarrow> Some b)"
    "AutoPlan (mergeResolvedLocals p r) =
       (case AutoPlan r of None \<Rightarrow> AutoPlan p | Some b \<Rightarrow> Some b)"
    "RepoLocking (mergeResolvedLocals p r) =
       (case RepoLocking r of None \<Rightarrow> RepoLocking p | Some b \<Rightarrow> Some b)"
    "Skip (mergeResolvedLocals p r) = (case Skip r of None \<Rightarrow> Skip p | Some b \<Rightarrow> Some b)"
    "markedProject (mergeResolvedLocals p r) =
       (case markedProject r of None \<Rightarrow> markedProject p | Some b \<Rightarrow> Some b)"
    "BranchProject (mergeResolvedLocals p r) =
       (if BranchProject r = '''' then BranchProject p else BranchProject r)"
    "AtlantisWorkflow (mergeResolvedLocals p r) =
       (if AtlantisWorkflow r = '''' then AtlantisWorkflow p else AtlantisWorkflow r)"
    "TerraformVersion (mergeResolvedLocals p r) =
       (if TerraformVersion r = '''' then TerraformVersion p else TerraformVersion r)"
    by (simp_all add: merge_closed split: option.split)
  from flags strings merges show ?thesis
    by (intro conjI)
qed

theorem tri_state_flags_two_state_strings_witness:
  "resolveLocals CHR ''/'' autoplan_off_locals =
     Some (ResolvedLocals_zero\<lparr>AutoPlan := Some False\<rparr>) \<and>
   AutoPlan (mergeResolvedLocals (ResolvedLocals_zero\<lparr>AutoPlan := Some True\<rparr>)
               (ResolvedLocals_zero\<lparr>AutoPlan := Some False\<rparr>)) = Some False \<and>
   AtlantisWorkflow (mergeResolvedLocals prod_record
                       (ResolvedLocals_zero\<lparr>AutoPlan := Some False\<rparr>)) = ''prod''"
proof -
  have m: "AsValueMap autoplan_off_locals = Some (map_of [(''atlantis_autoplan'', CtyBool False)])"
    by (simp add: autoplan_off_locals_def)
  have 1: "AutoPlan (mergeResolvedLocals (ResolvedLocals_zero\<lparr>AutoPlan := Some True\<rparr>)
               (ResolvedLocals_zero\<lparr>AutoPlan := Some False\<rparr>)) = Some False"
    using tri_state_flags_two_state_strings [OF resolveLocals_examples(8) m,
        where p = "ResolvedLocals_zero\<lparr>AutoPlan := Some True\<rparr>"]
    by simp
  have 2: "AtlantisWorkflow (mergeResolvedLocals prod_record
                       (ResolvedLocals_zero\<lparr>AutoPlan := Some False\<rparr>)) =
           AtlantisWorkflow prod_record"
    using tri_state_flags_two_state_strings [OF resolveLocals_examples(8) m,
        where p = prod_record]
    by (simp add: ResolvedLocals_zero_def)
  from 1 2 show ?thesis
    by (simp add: prod_record_def resolveLocals_examples)
qed

section \<open>Properties of the include resolver\<close>

declare parseLocals.simps [simp del]


text \<open>
  A call for an included file (\<^verbatim>\<open>includeFromChild\<close> not nil) never reaches the loop: it
  returns the file's own record, whatever the file itself includes.
\<close>

lemma parseLocals_include:
  "parseLocals w p (Some inc) =
     (case decodeFile w p (Some inc) of
        None \<Rightarrow> None
      | Some (Inl err) \<Rightarrow> Some (ResolvedLocals_zero, Some err)
      | Some (Inr (localsAsCty, trackInclude)) \<Rightarrow>
          do { locals \<leftarrow> localsAsCty;
               childLocals \<leftarrow> resolveLocals (Separator w) locals;
               Some (childLocals, None) })"
  by (subst parseLocals.simps)
     (auto simp add: decodeFile_def merge_zero_left split: sum.split prod.split option.split)

text \<open>The top-level call, with the three early returns gathered in \<open>decodeFile\<close>.\<close>

lemma parseLocals_top:
  "parseLocals w p None =
     (case decodeFile w p None of
        None \<Rightarrow> None
      | Some (Inl err) \<Rightarrow> Some (ResolvedLocals_zero, Some err)
      | Some (Inr (localsAsCty, trackInclude)) \<Rightarrow>
          do { mergedParentLocals \<leftarrow>
                 (case trackInclude of
                    None \<Rightarrow> Some ResolvedLocals_zero
                  | Some ti \<Rightarrow>
                      fold (\<lambda>includeConfig merged.
                              do { mergedParentLocals \<leftarrow> merged;
                                   parent \<leftarrow> parseLocals w (Path includeConfig)
                                              (Some includeConfig);
                                   Some (mergeResolvedLocals mergedParentLocals (fst parent)) })
                           (CurrentList ti) (Some ResolvedLocals_zero));
               locals \<leftarrow> localsAsCty;
               childLocals \<leftarrow> resolveLocals (Separator w) locals;
               Some (mergeResolvedLocals mergedParentLocals childLocals, None) })"
  by (subst parseLocals.simps)
     (auto simp add: decodeFile_def split: sum.split prod.split option.split)

text \<open>The loop over includes that all return: a left fold of the merge over their records.\<close>

lemma fold_includes:
  assumes "list_all2 (\<lambda>ic r. \<exists>e. parseLocals w (Path ic) (Some ic) = Some (r, e)) incs rs"
  shows "fold (\<lambda>includeConfig merged.
                 do { mergedParentLocals \<leftarrow> merged;
                      parent \<leftarrow> parseLocals w (Path includeConfig) (Some includeConfig);
                      Some (mergeResolvedLocals mergedParentLocals (fst parent)) })
              incs (Some acc) =
         Some (foldl mergeResolvedLocals acc rs)"
  using assms
  by (induction arbitrary: acc rule: list_all2_induct) auto

lemma include_returns:
  assumes "decodeFile w (Path inc) (Some inc) = Some (Inr (Some v', ti'))"
    and "resolveLocals (Separator w) v' = Some r'"
  shows "parseLocals w (Path inc) (Some inc) = Some (r', None)"
  using assms by (simp add: parseLocals_include)

text \<open>Decoding a file of an example world.\<close>

lemma decodeFile_example:
  "decodeFile (example_world nested files modules) path inc =
     (case map_of files path of
        None \<Rightarrow> Some (Inl (Failure ''no such file''))
      | Some text \<Rightarrow>
          if text = ''{'' then Some (Inl (Diagnostics [DiagError]))
          else example_decoder nested modules (Some text) path inc)"
  by (simp add: decodeFile_def example_world_def parseHcl_def example_parser_def
        split: option.split)

lemma Separator_example: "Separator (example_world nested files modules) = CHR ''/''"
  by (simp add: example_world_def)

text \<open>
  C8.  The all-unset record is a left identity of the merge: merging any child into it
  gives the child back, field for field.  Hence a module whose file decodes without
  includes (no tracked includes, or an empty list of them) and whose locals extract to a
  record resolves to exactly that record, with a nil error.
\<close>

theorem no_includes_own_record:
  "mergeResolvedLocals ResolvedLocals_zero c = c \<and>
   (decodeFile w path None = Some (Inr (Some v, trackInclude)) \<and>
    (trackInclude = None \<or> (\<exists>ti. trackInclude = Some ti \<and> CurrentList ti = [])) \<and>
    resolveLocals (Separator w) v = Some r \<longrightarrow>
    parseLocals w path None = Some (r, None))"
  by (auto simp add: merge_zero_left parseLocals_top)

theorem no_includes_own_record_witness:
  "mergeResolvedLocals ResolvedLocals_zero dev_record = dev_record \<and>
   parseLocals single_world ''a/terragrunt.hcl'' None = Some (dev_record, None)"
proof -
  have d: "decodeFile single_world ''a/terragrunt.hcl'' None =
             Some (Inr (Some dev_locals, Some \<lparr>CurrentList = []\<rparr>))"
    by (simp add: single_world_def decodeFile_example example_decoder_def)
  have s: "Separator single_world = CHR ''/''"
    by (simp add: single_world_def Separator_example)
  from no_includes_own_record
    [where c = dev_record and w = single_world and path = "''a/terragrunt.hcl''"
       and v = dev_locals and trackInclude = "Some \<lparr>CurrentList = []\<rparr>" and r = dev_record]
    d s
  show ?thesis
    by (simp add: resolveLocals_examples)
qed

text \<open>
  C3, as the claim states it, fails: for a module whose only include is its own file the
  resolver returns a record and a nil error, whether the decoder accepts the include block
  of the included file or rejects it.
\<close>

theorem cyclic_include_counterexample:
  "\<forall>nested. parseLocals (self_world nested) ''a/terragrunt.hcl'' None = Some (prod_record, None)"
proof -
  have top: "decodeFile (self_world nested) ''a/terragrunt.hcl'' None =
             Some (Inr (Some prod_locals,
                        Some \<lparr>CurrentList = [example_include ''a/terragrunt.hcl'']\<rparr>))"
    for nested
    by (simp add: self_world_def decodeFile_example example_decoder_def)
  have inc: "decodeFile (self_world nested) ''a/terragrunt.hcl''
               (Some (example_include ''a/terragrunt.hcl'')) =
             (if nested
              then Some (Inr (Some prod_locals,
                              Some \<lparr>CurrentList = [example_include ''a/terragrunt.hcl'']\<rparr>))
              else Some (Inl (Failure ''too many levels of inheritance'')))" for nested
    by (simp add: self_world_def decodeFile_example example_decoder_def)
  have s: "Separator (self_world nested) = CHR ''/''" for nested
    by (simp add: self_world_def Separator_example)
  have m: "mergeResolvedLocals prod_record prod_record = prod_record"
    by (simp add: merge_closed prod_record_def ResolvedLocals_zero_def)
  have p: "Path (example_include ''a/terragrunt.hcl'') = ''a/terragrunt.hcl''"
    by (simp add: example_include_def)
  have "parseLocals (self_world nested) ''a/terragrunt.hcl'' None = Some (prod_record, None)"
    for nested
    by (cases nested)
       (simp_all add: parseLocals_top parseLocals_include top inc s p resolveLocals_examples
          merge_zero_left m)
  then show ?thesis by simp
qed

text \<open>
  C3, amended.  The resolver detects no cycle and has no cyclic-include error; it cannot
  loop on a cyclic include graph, because the call it makes for an included file never
  follows that file's own includes.  For every world, path and include, that call is the
  three calls on the one file and the extraction of its locals, with no further call of
  the resolver: the recursion is one level deep on every include graph.
\<close>

theorem included_file_not_followed:
  "parseLocals w p (Some inc) =
     (case decodeFile w p (Some inc) of
        None \<Rightarrow> None
      | Some (Inl err) \<Rightarrow> Some (ResolvedLocals_zero, Some err)
      | Some (Inr (localsAsCty, trackInclude)) \<Rightarrow>
          do { locals \<leftarrow> localsAsCty;
               childLocals \<leftarrow> resolveLocals (Separator w) locals;
               Some (childLocals, None) })"
  by (rule parseLocals_include)

theorem included_file_not_followed_witness:
  "parseLocals (self_world True) ''a/terragrunt.hcl'' (Some (example_include ''a/terragrunt.hcl'')) =
     Some (prod_record, None) \<and>
   parseLocals (self_world False) ''a/terragrunt.hcl'' (Some (example_include ''a/terragrunt.hcl'')) =
     Some (ResolvedLocals_zero, Some (Failure ''too many levels of inheritance''))"
proof -
  have inc: "decodeFile (self_world nested) ''a/terragrunt.hcl''
               (Some (example_include ''a/terragrunt.hcl'')) =
             (if nested
              then Some (Inr (Some prod_locals,
                              Some \<lparr>CurrentList = [example_include ''a/terragrunt.hcl'']\<rparr>))
              else Some (Inl (Failure ''too many levels of inheritance'')))" for nested
    by (simp add: self_world_def decodeFile_example example_decoder_def)
  have s: "Separator (self_world nested) = CHR ''/''" for nested
    by (simp add: self_world_def Separator_example)
  from included_file_not_followed
      [of "self_world True" "''a/terragrunt.hcl''" "example_include ''a/terragrunt.hcl''"]
    included_file_not_followed
      [of "self_world False" "''a/terragrunt.hcl''" "example_include ''a/terragrunt.hcl''"]
  show ?thesis
    by (simp add: inc s resolveLocals_examples)
qed

text \<open>
  C4, as the claim states it, fails on a chain of depth two: \<^verbatim>\<open>a\<close> includes \<^verbatim>\<open>b\<close>, \<^verbatim>\<open>b\<close>
  includes \<^verbatim>\<open>c\<close>, and only \<^verbatim>\<open>c\<close> names a workflow.  Resolving \<^verbatim>\<open>b\<close> gives the workflow of
  \<^verbatim>\<open>c\<close>, but resolving \<^verbatim>\<open>a\<close> gives the all-unset record: the ancestor of the ancestor is
  not resolved, whether the decoder accepts the include block of \<^verbatim>\<open>b\<close> or rejects it.
\<close>

theorem include_chain_counterexample:
  "\<forall>nested.
     parseLocals (chain_world nested) ''b/terragrunt.hcl'' None = Some (prod_record, None) \<and>
     parseLocals (chain_world nested) ''a/terragrunt.hcl'' None = Some (ResolvedLocals_zero, None)"
proof -
  have a: "decodeFile (chain_world nested) ''a/terragrunt.hcl'' None =
             Some (Inr (Some plain_locals,
                        Some \<lparr>CurrentList = [example_include ''b/terragrunt.hcl'']\<rparr>))"
    for nested
    by (simp add: chain_world_def decodeFile_example example_decoder_def)
  have b: "decodeFile (chain_world nested) ''b/terragrunt.hcl'' None =
             Some (Inr (Some plain_locals,
                        Some \<lparr>CurrentList = [example_include ''c/terragrunt.hcl'']\<rparr>))"
    for nested
    by (simp add: chain_world_def decodeFile_example example_decoder_def)
  have b_inc: "decodeFile (chain_world nested) ''b/terragrunt.hcl''
                 (Some (example_include ''b/terragrunt.hcl'')) =
             (if nested
              then Some (Inr (Some plain_locals,
                              Some \<lparr>CurrentList = [example_include ''c/terragrunt.hcl'']\<rparr>))
              else Some (Inl (Failure ''too many levels of inheritance'')))" for nested
    by (simp add: chain_world_def decodeFile_example example_decoder_def)
  have c_inc: "decodeFile (chain_world nested) ''c/terragrunt.hcl''
                 (Some (example_include ''c/terragrunt.hcl'')) =
             Some (Inr (Some prod_locals, Some \<lparr>CurrentList = []\<rparr>))" for nested
    by (simp add: chain_world_def decodeFile_example example_decoder_def)
  have s: "Separator (chain_world nested) = CHR ''/''" for nested
    by (simp add: chain_world_def Separator_example)
  have p: "Path (example_include ''b/terragrunt.hcl'') = ''b/terragrunt.hcl''"
    "Path (example_include ''c/terragrunt.hcl'') = ''c/terragrunt.hcl''"
    by (simp_all add: example_include_def)
  have "parseLocals (chain_world nested) ''b/terragrunt.hcl'' None = Some (prod_record, None)"
    for nested
    by (simp add: parseLocals_top parseLocals_include b c_inc s p resolveLocals_examples
          merge_zero_left merge_zero_right)
  moreover
  have "parseLocals (chain_world nested) ''a/terragrunt.hcl'' None =
          Some (ResolvedLocals_zero, None)" for nested
    by (cases nested)
       (simp_all add: parseLocals_top parseLocals_include a b_inc s p resolveLocals_examples
          merge_zero_left)
  ultimately show ?thesis by simp
qed

text \<open>
  C4, amended.  Resolving a module resolves its directly declared includes only: each
  include contributes the own record of the included file, and the includes of an
  included file are not followed.  When the module's file decodes, every direct include
  decodes and extracts, and the module's own locals extract, the result is the left fold
  of the merge over the includes' records in declaration order, starting from the
  all-unset record, with the module's own record merged on top; the error is nil.  By the
  merge's replace semantics a later include overrides an earlier one and the module's own
  declarations override all includes.
\<close>

theorem direct_includes_fold:
  assumes "decodeFile w p None = Some (Inr (Some v, Some ti))"
    and "resolveLocals (Separator w) v = Some r"
    and "list_all2
           (\<lambda>inc r'. \<exists>v' ti'. decodeFile w (Path inc) (Some inc) = Some (Inr (Some v', ti')) \<and>
                              resolveLocals (Separator w) v' = Some r')
           (CurrentList ti) rs"
  shows "parseLocals w p None =
           Some (mergeResolvedLocals (foldl mergeResolvedLocals ResolvedLocals_zero rs) r, None)"
proof -
  from assms(3)
  have "list_all2 (\<lambda>ic r'. \<exists>e. parseLocals w (Path ic) (Some ic) = Some (r', e))
          (CurrentList ti) rs"
    by (rule list_all2_mono) (auto simp add: include_returns)
  then have "fold (\<lambda>includeConfig merged.
                 do { mergedParentLocals \<leftarrow> merged;
                      parent \<leftarrow> parseLocals w (Path includeConfig) (Some includeConfig);
                      Some (mergeResolvedLocals mergedParentLocals (fst parent)) })
              (CurrentList ti) (Some ResolvedLocals_zero) =
         Some (foldl mergeResolvedLocals ResolvedLocals_zero rs)"
    by (rule fold_includes)
  with assms(1,2) show ?thesis
    by (simp add: parseLocals_top)
qed

theorem direct_includes_fold_witness:
  "parseLocals sibling_world ''app/terragrunt.hcl'' None =
     Some (ResolvedLocals_zero\<lparr>AtlantisWorkflow := ''prod'', PlanRequirements := Some []\<rparr>, None)"
proof -
  have app: "decodeFile sibling_world ''app/terragrunt.hcl'' None =
             Some (Inr (Some app_locals,
                        Some \<lparr>CurrentList = [example_include ''dev.hcl'',
                                             example_include ''prod.hcl'']\<rparr>))"
    by (simp add: sibling_world_def decodeFile_example example_decoder_def)
  have dev: "decodeFile sibling_world ''dev.hcl'' inc =
             Some (Inr (Some dev_locals, Some \<lparr>CurrentList = []\<rparr>))" for inc
    by (simp add: sibling_world_def decodeFile_example example_decoder_def)
  have prod: "decodeFile sibling_world ''prod.hcl'' inc =
             Some (Inr (Some prod_locals, Some \<lparr>CurrentList = []\<rparr>))" for inc
    by (simp add: sibling_world_def decodeFile_example example_decoder_def)
  have s: "Separator sibling_world = CHR ''/''"
    by (simp add: sibling_world_def Separator_example)
  have own: "resolveLocals (Separator sibling_world) app_locals = Some app_record"
    by (simp add: s resolveLocals_examples)
  have incs: "list_all2
           (\<lambda>inc r'. \<exists>v' ti'. decodeFile sibling_world (Path inc) (Some inc) =
                                 Some (Inr (Some v', ti')) \<and>
                              resolveLocals (Separator sibling_world) v' = Some r')
           (CurrentList \<lparr>CurrentList = [example_include ''dev.hcl'',
                                         example_include ''prod.hcl'']\<rparr>)
           [dev_record, prod_record]"
    by (simp add: example_include_def dev prod s resolveLocals_examples)
  have m: "mergeResolvedLocals
             (foldl mergeResolvedLocals ResolvedLocals_zero [dev_record, prod_record]) app_record =
           ResolvedLocals_zero\<lparr>AtlantisWorkflow := ''prod'', PlanRequirements := Some []\<rparr>"
    by (simp add: merge_closed dev_record_def prod_record_def app_record_def
          ResolvedLocals_zero_def)
  from direct_includes_fold [OF app own incs] m show ?thesis
    by simp
qed

text \<open>
  C6.  The claim holds for the module's own file and fails for an include: in the example
  the included file \<^verbatim>\<open>b\<close> does not parse, the call for it returns the parser's diagnostics
  as its error, and the resolution of \<^verbatim>\<open>a\<close> still returns a nil error, with \<^verbatim>\<open>b\<close> counted
  as the all-unset record.
\<close>

theorem include_error_dropped:
  "parseLocals broken_world ''b/terragrunt.hcl'' (Some (example_include ''b/terragrunt.hcl'')) =
     Some (ResolvedLocals_zero, Some (Diagnostics [DiagError])) \<and>
   parseLocals broken_world ''a/terragrunt.hcl'' None = Some (prod_record, None)"
proof -
  have a: "decodeFile broken_world ''a/terragrunt.hcl'' None =
             Some (Inr (Some prod_locals,
                        Some \<lparr>CurrentList = [example_include ''b/terragrunt.hcl'']\<rparr>))"
    by (simp add: broken_world_def decodeFile_example example_decoder_def)
  have b: "decodeFile broken_world ''b/terragrunt.hcl'' inc =
             Some (Inl (Diagnostics [DiagError]))" for inc
    by (simp add: broken_world_def decodeFile_example example_decoder_def)
  have s: "Separator broken_world = CHR ''/''"
    by (simp add: broken_world_def Separator_example)
  show ?thesis
    by (simp add: parseLocals_top parseLocals_include a b s resolveLocals_examples
          example_include_def merge_zero_left)
qed

section \<open>Properties of reading the previous output\<close>

text \<open>
  C7.  \<^verbatim>\<open>readOldConfig\<close> returns an error exactly when the output file can be read and the
  YAML decoder rejects its bytes; the error is the decoder's.  When the file cannot be
  read (as when it is missing) the result is a nil configuration and a nil error, and one
  line is logged.
\<close>

theorem readOldConfig_error_iff:
  "(snd (fst (readOldConfig ReadFile Unmarshal outputPath)) = Some err) =
     (\<exists>bytes. ReadFile outputPath = Inr bytes \<and>
              Unmarshal bytes AtlantisConfig_zero = Inl err) \<and>
   (ReadFile outputPath = Inl e \<longrightarrow>
      readOldConfig ReadFile Unmarshal outputPath =
        ((None, None), [''Could not find an old config file. Starting from scratch'']))"
  by (auto simp add: readOldConfig_def Let_def split: sum.splits)

theorem readOldConfig_error_iff_witness:
  "readOldConfig example_ReadFile example_Unmarshal ''missing.yaml'' =
     ((None, None), [''Could not find an old config file. Starting from scratch'']) \<and>
   snd (fst (readOldConfig example_ReadFile example_Unmarshal ''corrupt.yaml'')) =
     Some (Failure ''yaml: did not find expected node content'') \<and>
   snd (fst (readOldConfig example_ReadFile example_Unmarshal ''atlantis.yaml'')) = None"
proof -
  have 1: "example_ReadFile ''missing.yaml'' = Inl (Failure ''open: no such file or directory'')"
    by (simp add: example_ReadFile_def)
  have 2: "\<exists>bytes. example_ReadFile ''corrupt.yaml'' = Inr bytes \<and>
             example_Unmarshal bytes AtlantisConfig_zero =
               Inl (Failure ''yaml: did not find expected node content'')"
    by (simp add: example_ReadFile_def example_Unmarshal_def)
  have 3: "\<not> (\<exists>bytes. example_ReadFile ''atlantis.yaml'' = Inr bytes \<and>
             example_Unmarshal bytes AtlantisConfig_zero = Inl err)" for err
    by (simp add: example_ReadFile_def example_Unmarshal_def)
  have a: "readOldConfig example_ReadFile example_Unmarshal ''missing.yaml'' =
     ((None, None), [''Could not find an old config file. Starting from scratch''])"
    using readOldConfig_error_iff [where ReadFile = example_ReadFile
        and Unmarshal = example_Unmarshal and outputPath = "''missing.yaml''"
        and e = "Failure ''open: no such file or directory''"] 1
    by blast
  have b: "snd (fst (readOldConfig example_ReadFile example_Unmarshal ''corrupt.yaml'')) =
     Some (Failure ''yaml: did not find expected node content'')"
    using readOldConfig_error_iff [where ReadFile = example_ReadFile
        and Unmarshal = example_Unmarshal and outputPath = "''corrupt.yaml''"
        and err = "Failure ''yaml: did not find expected node content''"] 2
    by blast
  have c: "snd (fst (readOldConfig example_ReadFile example_Unmarshal ''atlantis.yaml'')) \<noteq>
             Some err" for err
    using readOldConfig_error_iff [where ReadFile = example_ReadFile
        and Unmarshal = example_Unmarshal and outputPath = "''atlantis.yaml''"
        and err = err] 3 [of err]
    by blast
  from a b c show ?thesis
    by (cases "snd (fst (readOldConfig example_ReadFile example_Unmarshal ''atlantis.yaml''))")
       auto
qed

end
